theory Spec2Isabelle
  imports Complex_Main
begin

section \<open>DICOM wrappers of nibabel: data model\<close>

text \<open>
  A shallow embedding of \<^verbatim>\<open>nibabel/dicom/dicomwrappers.py\<close>.

  Conventions of the model.
  \<^item> Python floats and numpy float arrays are modelled by HOL reals: rounding is left out.
  \<^item> A field of the wrapped DICOM record is an \<open>option\<close>: \<open>None\<close> is an absent attribute
    (what \<^verbatim>\<open>self.get(key)\<close> turns into Python's \<^verbatim>\<open>None\<close>). Fields with a fixed value
    multiplicity in DICOM carry that shape in their type: six direction cosines, a
    three-component position, two pixel spacings.
  \<^item> The tests \<^verbatim>\<open>None in (a, b)\<close> and \<^verbatim>\<open>(a, b) == (None, None)\<close> are read as tests for
    \<^verbatim>\<open>None\<close> (an array compared with \<^verbatim>\<open>None\<close> is false, as in the numpy the module
    was written for).
  \<^item> Every \<^verbatim>\<open>raise\<close> and \<^verbatim>\<open>assert\<close> of the source is an \<open>Inl\<close> result.
\<close>

type_synonym vec3 = "real \<times> real \<times> real"
type_synonym mat32 = "(real \<times> real) \<times> (real \<times> real) \<times> (real \<times> real)"
type_synonym mat33 = "vec3 \<times> vec3 \<times> vec3"
type_synonym vec4 = "real \<times> real \<times> real \<times> real"
type_synonym mat44 = "vec4 \<times> vec4 \<times> vec4 \<times> vec4"

text \<open>
  The errors of the module. \<open>WrapperError\<close> and \<open>CSAError\<close> are its own exceptions,
  \<open>AssertionError\<close> is the failed \<^verbatim>\<open>assert\<close> of \<^verbatim>\<open>rotation_matrix\<close>; the others are raised
  by Python or numpy inside a statement of the source. \<open>FloatNonFinite\<close> is no exception:
  it marks a division by a zero mosaic size, where numpy goes on with \<^verbatim>\<open>inf\<close> or \<^verbatim>\<open>nan\<close>,
  values that the reals of this model do not have.
\<close>

datatype error = WrapperError | CSAError | AssertionError | TypeError | AttributeError
  | IndexError | ValueError | FloatNonFinite

text \<open>A numpy array: its shape and its items in C (row-major) order.\<close>

record 'a ndarray =
  shape :: "nat list"
  items :: "'a list"

text \<open>The DICOM record, with the attributes the module reads.\<close>

record 'a dcm_data =
  Rows :: "nat option"
  Columns :: "nat option"
  ImageOrientationPatient :: "(real \<times> real \<times> real \<times> real \<times> real \<times> real) option"
  ImagePositionPatient :: "vec3 option"
  PixelSpacing :: "(real \<times> real) option"
  SpacingBetweenSlices :: "real option"
  RescaleSlope :: "real option"
  RescaleIntercept :: "real option"
  SeriesNumber :: "int option"
  ImageType :: "string list option"
  SequenceName :: "string option"
  SeriesInstanceID :: "string option"
  EchoNumbers :: "int option"
  InstanceNumber :: "int option"
  pixel_array :: "'a ndarray option"

text \<open>The record of \<^verbatim>\<open>dcm_data = {}\<close>: no attribute at all.\<close>

definition empty_dcm :: "'a dcm_data" where
  "empty_dcm = \<lparr>Rows = None, Columns = None, ImageOrientationPatient = None,
     ImagePositionPatient = None, PixelSpacing = None, SpacingBetweenSlices = None,
     RescaleSlope = None, RescaleIntercept = None, SeriesNumber = None, ImageType = None,
     SequenceName = None, SeriesInstanceID = None, EchoNumbers = None,
     InstanceNumber = None, pixel_array = None\<rparr>"

text \<open>
  Modelled from the spec: the Siemens CSA sub-header and its reader \<^verbatim>\<open>csareader\<close>, which
  are not part of the sources at hand. The sub-header is represented by what the reader's
  accessors return on it, each \<open>None\<close> on absence: \<^verbatim>\<open>get_slice_normal\<close>, \<^verbatim>\<open>get_b_matrix\<close>,
  \<^verbatim>\<open>get_b_value\<close>, \<^verbatim>\<open>get_ice_dims\<close>, and \<^verbatim>\<open>get_n_mosaic\<close>, whose \<^verbatim>\<open>KeyError\<close> the
  constructor of the mosaic wrapper catches.
\<close>

record csa_header =
  get_slice_normal :: "vec3 option"
  get_b_matrix :: "mat33 option"
  get_b_value :: "real option"
  get_ice_dims :: "string list option"
  get_n_mosaic :: "unit + nat option"

text \<open>The sub-header \<^verbatim>\<open>csa_header = {}\<close>.\<close>

definition empty_csa :: csa_header where
  "empty_csa = \<lparr>get_slice_normal = None, get_b_matrix = None, get_b_value = None,
     get_ice_dims = None, get_n_mosaic = Inl ()\<rparr>"

text \<open>
  The three classes. A mosaic wrapper stores \<^verbatim>\<open>n_mosaic\<close>; its \<^verbatim>\<open>mosaic_size\<close> is
  computed from it once, in the constructor.
\<close>

datatype 'a wrapper =
    Wrapper "'a dcm_data"
  | SiemensWrapper "'a dcm_data" csa_header
  | MosaicWrapper "'a dcm_data" csa_header nat

fun dcm :: "'a wrapper \<Rightarrow> 'a dcm_data" where
  "dcm (Wrapper d) = d"
| "dcm (SiemensWrapper d c) = d"
| "dcm (MosaicWrapper d c n) = d"

subsection \<open>Small linear algebra on the fixed shapes\<close>

fun inner3 :: "vec3 \<Rightarrow> vec3 \<Rightarrow> real" where
  "inner3 (a1, a2, a3) (b1, b2, b3) = a1 * b1 + a2 * b2 + a3 * b3"

fun cross3 :: "vec3 \<Rightarrow> vec3 \<Rightarrow> vec3" where
  "cross3 (a1, a2, a3) (b1, b2, b3) =
     (a2 * b3 - a3 * b2, a3 * b1 - a1 * b3, a1 * b2 - a2 * b1)"

fun mat_T :: "mat33 \<Rightarrow> mat33" where
  "mat_T ((a, b, c), (d, e, f), (g, h, i)) = ((a, d, g), (b, e, h), (c, f, i))"

fun mat_dot :: "mat33 \<Rightarrow> mat33 \<Rightarrow> mat33" where
  "mat_dot (r1, r2, r3) B =
     (case mat_T B of (c1, c2, c3) \<Rightarrow>
        ((inner3 r1 c1, inner3 r1 c2, inner3 r1 c3),
         (inner3 r2 c1, inner3 r2 c2, inner3 r2 c3),
         (inner3 r3 c1, inner3 r3 c2, inner3 r3 c3)))"

definition eye3 :: mat33 where
  "eye3 = ((1, 0, 0), (0, 1, 0), (0, 0, 1))"

definition zeros33 :: mat33 where
  "zeros33 = ((0, 0, 0), (0, 0, 0), (0, 0, 0))"

fun elems33 :: "mat33 \<Rightarrow> real list" where
  "elems33 ((a, b, c), (d, e, f), (g, h, i)) = [a, b, c, d, e, f, g, h, i]"

fun elems32 :: "mat32 \<Rightarrow> real list" where
  "elems32 ((a, b), (c, d), (e, f)) = [a, b, c, d, e, f]"

text \<open>
  \<^verbatim>\<open>np.allclose(a, b, rtol, atol)\<close> on two arrays of one shape, given by their items:
  every pair satisfies \<open>|a - b| \<le> atol + rtol * |b|\<close>. numpy's default \<^verbatim>\<open>rtol\<close> is
  \<open>1e-5\<close>, its default \<^verbatim>\<open>atol\<close> is \<open>1e-8\<close>.
\<close>

definition close_to :: "real \<Rightarrow> real \<Rightarrow> real \<Rightarrow> real \<Rightarrow> bool" where
  "close_to rtol atol a b = (\<bar>a - b\<bar> \<le> atol + rtol * \<bar>b\<bar>)"

definition allclose :: "real \<Rightarrow> real \<Rightarrow> real list \<Rightarrow> real list \<Rightarrow> bool" where
  "allclose rtol atol xs ys = list_all2 (close_to rtol atol) xs ys"

definition default_rtol :: real where
  "default_rtol = 1 / 100000"

definition default_atol :: real where
  "default_atol = 1 / 100000000"

subsection \<open>Mosaic size\<close>

text \<open>
  \<^verbatim>\<open>mosaic_size = np.ceil(np.sqrt(n_mosaic))\<close>, computed by search for the least \<open>k\<close>
  with \<open>n \<le> k * k\<close>.
\<close>

function ceil_sqrt_from :: "nat \<Rightarrow> nat \<Rightarrow> nat" where
  "ceil_sqrt_from n k = (if n \<le> k * k then k else ceil_sqrt_from n (Suc k))"
  by pat_completeness auto
termination
  by (relation "measure (\<lambda>(n, k). n - k * k)") auto

definition ceil_sqrt :: "nat \<Rightarrow> nat" where
  "ceil_sqrt n = ceil_sqrt_from n 0"

fun n_mosaic :: "'a wrapper \<Rightarrow> nat" where
  "n_mosaic (MosaicWrapper d c n) = n"
| "n_mosaic w = 0"

definition mosaic_size :: "'a wrapper \<Rightarrow> nat" where
  "mosaic_size w = ceil_sqrt (n_mosaic w)"

text \<open>
  \<^verbatim>\<open>MosaicWrapper.__init__\<close>: a missing \<^verbatim>\<open>n_mosaic\<close> is read from the sub-header; a
  \<^verbatim>\<open>KeyError\<close> there counts as \<^verbatim>\<open>None\<close>; \<^verbatim>\<open>None\<close> or 0 raise. A number passed in by
  the caller is not checked.
\<close>

definition MosaicWrapper_init ::
  "'a dcm_data \<Rightarrow> csa_header \<Rightarrow> nat option \<Rightarrow> error + 'a wrapper" where
  "MosaicWrapper_init d c n_opt =
     (case n_opt of
        Some n \<Rightarrow> Inr (MosaicWrapper d c n)
      | None \<Rightarrow>
          (case (case get_n_mosaic c of Inl _ \<Rightarrow> None | Inr r \<Rightarrow> r) of
             None \<Rightarrow> Inl WrapperError
           | Some n \<Rightarrow> if n = 0 then Inl WrapperError else Inr (MosaicWrapper d c n)))"

section \<open>Calculated attributes\<close>

text \<open>
  \<^verbatim>\<open>image_shape\<close> is \<^verbatim>\<open>(Rows, Columns)\<close> for the general and the Siemens wrapper, and
  \<^verbatim>\<open>(rows / mosaic_size, cols / mosaic_size, n_mosaic)\<close> for the mosaic wrapper, where
  the quotients are floats.
\<close>

datatype image_shape_t = Shape2 nat nat | Shape3 real real nat

fun image_shape :: "'a wrapper \<Rightarrow> error + image_shape_t option" where
  "image_shape (MosaicWrapper d c n) =
     (case (Rows d, Columns d) of
        (Some rows, Some cols) \<Rightarrow>
          (if mosaic_size (MosaicWrapper d c n) = 0 then Inl FloatNonFinite
           else Inr (Some (Shape3 (real rows / real (mosaic_size (MosaicWrapper d c n)))
                                  (real cols / real (mosaic_size (MosaicWrapper d c n))) n)))
      | _ \<Rightarrow> Inr None)"
| "image_shape w =
     (case (Rows (dcm w), Columns (dcm w)) of
        (Some rows, Some cols) \<Rightarrow> Inr (Some (Shape2 rows cols))
      | _ \<Rightarrow> Inr None)"

text \<open>\<^verbatim>\<open>np.array(iop).reshape(2,3).T\<close>: a 3 by 2 matrix, given by its rows.\<close>

definition image_orient_patient :: "'a wrapper \<Rightarrow> mat32 option" where
  "image_orient_patient w =
     (case ImageOrientationPatient (dcm w) of
        None \<Rightarrow> None
      | Some (a, b, c, d, e, f) \<Rightarrow> Some ((a, d), (b, e), (c, f)))"

fun col0 :: "mat32 \<Rightarrow> vec3" where
  "col0 ((a, d), (b, e), (c, f)) = (a, b, c)"

fun col1 :: "mat32 \<Rightarrow> vec3" where
  "col1 ((a, d), (b, e), (c, f)) = (d, e, f)"

text \<open>
  \<^verbatim>\<open>slice_normal\<close>: \<^verbatim>\<open>np.cross(*iop.T[:])\<close>; the Siemens classes take the normal of the
  sub-header first.
\<close>

fun slice_normal :: "'a wrapper \<Rightarrow> vec3 option" where
  "slice_normal (Wrapper d) =
     (case image_orient_patient (Wrapper d) of
        None \<Rightarrow> None
      | Some iop \<Rightarrow> Some (cross3 (col0 iop) (col1 iop)))"
| "slice_normal (SiemensWrapper d c) =
     (case get_slice_normal c of
        Some s \<Rightarrow> Some s
      | None \<Rightarrow>
          (case image_orient_patient (SiemensWrapper d c) of
             None \<Rightarrow> None
           | Some iop \<Rightarrow> Some (cross3 (col0 iop) (col1 iop))))"
| "slice_normal (MosaicWrapper d c n) =
     (case get_slice_normal c of
        Some s \<Rightarrow> Some s
      | None \<Rightarrow>
          (case image_orient_patient (MosaicWrapper d c n) of
             None \<Rightarrow> None
           | Some iop \<Rightarrow> Some (cross3 (col0 iop) (col1 iop))))"

text \<open>\<^verbatim>\<open>R = np.eye(3); R[:,:2] = iop; R[:,2] = s_norm\<close>.\<close>

fun hstack :: "mat32 \<Rightarrow> vec3 \<Rightarrow> mat33" where
  "hstack ((a, d), (b, e), (c, f)) (s1, s2, s3) = ((a, d, s1), (b, e, s2), (c, f, s3))"

definition rotation_matrix :: "'a wrapper \<Rightarrow> error + mat33 option" where
  "rotation_matrix w =
     (case (image_orient_patient w, slice_normal w) of
        (Some iop, Some s_norm) \<Rightarrow>
          (let R = hstack iop s_norm
           in if allclose default_rtol (1 / 1000000) (elems33 eye3)
                   (elems33 (mat_dot R (mat_T R)))
              then Inr (Some R) else Inl AssertionError)
      | _ \<Rightarrow> Inr None)"

definition voxel_sizes :: "'a wrapper \<Rightarrow> vec3 option" where
  "voxel_sizes w =
     (case PixelSpacing (dcm w) of
        None \<Rightarrow> None
      | Some (p1, p2) \<Rightarrow>
          Some (p1, p2, (case SpacingBetweenSlices (dcm w) of None \<Rightarrow> 1 | Some zs \<Rightarrow> zs)))"

text \<open>
  \<^verbatim>\<open>image_position\<close>: the recorded position; the mosaic wrapper moves it by
  \<^verbatim>\<open>np.dot(iop * vox[:2], (md_xy - md_xy / mosaic_size) / 2)\<close>.
\<close>

fun image_position :: "'a wrapper \<Rightarrow> error + vec3 option" where
  "image_position (MosaicWrapper d c n) =
     (case (ImagePositionPatient d, Rows d, Columns d,
            image_orient_patient (MosaicWrapper d c n), voxel_sizes (MosaicWrapper d c n)) of
        (Some (p1, p2, p3), Some o_rows, Some o_cols,
         Some ((m11, m12), (m21, m22), (m31, m32)), Some (v1, v2, v3)) \<Rightarrow>
          (if mosaic_size (MosaicWrapper d c n) = 0 then Inl FloatNonFinite
           else
             (let ms = real (mosaic_size (MosaicWrapper d c n));
                  t1 = (real o_rows - real o_rows / ms) / 2;
                  t2 = (real o_cols - real o_cols / ms) / 2
              in Inr (Some (p1 + ((m11 * v1) * t1 + (m12 * v2) * t2),
                            p2 + ((m21 * v1) * t1 + (m22 * v2) * t2),
                            p3 + ((m31 * v1) * t1 + (m32 * v2) * t2)))))
      | _ \<Rightarrow> Inr None)"
| "image_position w = Inr (ImagePositionPatient (dcm w))"

definition slice_indicator :: "'a wrapper \<Rightarrow> error + real option" where
  "slice_indicator w =
     (case image_position w of
        Inl e \<Rightarrow> Inl e
      | Inr ipp \<Rightarrow>
          (case (ipp, slice_normal w) of
             (Some p, Some s_norm) \<Rightarrow> Inr (Some (inner3 p s_norm))
           | _ \<Rightarrow> Inr None))"

section \<open>Methods of the general wrapper\<close>

text \<open>\<^verbatim>\<open>aff = np.eye(4); aff[:3,:3] = orient * np.array(vox); aff[:3,3] = ipp\<close>.\<close>

fun affine_of :: "mat33 \<Rightarrow> vec3 \<Rightarrow> vec3 \<Rightarrow> mat44" where
  "affine_of ((r11, r12, r13), (r21, r22, r23), (r31, r32, r33)) (v1, v2, v3) (p1, p2, p3) =
     ((r11 * v1, r12 * v2, r13 * v3, p1),
      (r21 * v1, r22 * v2, r23 * v3, p2),
      (r31 * v1, r32 * v2, r33 * v3, p3),
      (0, 0, 0, 1))"

definition get_affine :: "'a wrapper \<Rightarrow> error + mat44" where
  "get_affine w =
     (case rotation_matrix w of
        Inl e \<Rightarrow> Inl e
      | Inr orient \<Rightarrow>
          (case image_position w of
             Inl e \<Rightarrow> Inl e
           | Inr ipp \<Rightarrow>
               (case (orient, voxel_sizes w, ipp) of
                  (Some R, Some vox, Some p) \<Rightarrow> Inr (affine_of R vox p)
                | _ \<Rightarrow> Inl WrapperError)))"

definition get_pixel_array :: "'a wrapper \<Rightarrow> error + 'a ndarray" where
  "get_pixel_array w =
     (case pixel_array (dcm w) of None \<Rightarrow> Inl WrapperError | Some a \<Rightarrow> Inr a)"

text \<open>
  \<^verbatim>\<open>_scale_data\<close>. The arithmetic of numpy on the pixel array (\<^verbatim>\<open>data * scale\<close>,
  \<^verbatim>\<open>data + offset\<close>, with numpy's rules for the type of the result) is a parameter:
  \<open>mul\<close> and \<open>add\<close>.
\<close>

definition scale_data ::
  "('a ndarray \<Rightarrow> real \<Rightarrow> 'a ndarray) \<Rightarrow> ('a ndarray \<Rightarrow> real \<Rightarrow> 'a ndarray) \<Rightarrow>
   'a wrapper \<Rightarrow> 'a ndarray \<Rightarrow> 'a ndarray" where
  "scale_data mul add w data =
     (let scale = (case RescaleSlope (dcm w) of None \<Rightarrow> 1 | Some s \<Rightarrow> s);
          offset = (case RescaleIntercept (dcm w) of None \<Rightarrow> 0 | Some i \<Rightarrow> i)
      in if scale \<noteq> 1 then
           (if offset = 0 then mul data scale else add (mul data scale) offset)
         else if offset \<noteq> 0 then add data offset
         else data)"

text \<open>\<^verbatim>\<open>Wrapper.get_data\<close>, inherited by the Siemens wrapper.\<close>

definition get_data_base ::
  "('a ndarray \<Rightarrow> real \<Rightarrow> 'a ndarray) \<Rightarrow> ('a ndarray \<Rightarrow> real \<Rightarrow> 'a ndarray) \<Rightarrow>
   'a wrapper \<Rightarrow> error + 'a ndarray" where
  "get_data_base mul add w =
     (case get_pixel_array w of
        Inl e \<Rightarrow> Inl e
      | Inr data \<Rightarrow> Inr (scale_data mul add w data))"

subsection \<open>Volume matching\<close>

text \<open>
  \<^verbatim>\<open>none_matcher\<close>; the match function may raise, so it returns a sum. The default match
  function is equality.
\<close>

definition none_matcher ::
  "'v option \<Rightarrow> 'v option \<Rightarrow> ('v \<Rightarrow> 'v \<Rightarrow> error + bool) \<Rightarrow> error + bool" where
  "none_matcher val1 val2 match_func =
     (case (val1, val2) of
        (None, None) \<Rightarrow> Inr True
      | (None, Some y) \<Rightarrow> Inr False
      | (Some x, None) \<Rightarrow> Inr False
      | (Some x, Some y) \<Rightarrow> match_func x y)"

definition eq_match :: "'v \<Rightarrow> 'v \<Rightarrow> error + bool" where
  "eq_match x y = Inr (x = y)"

text \<open>
  \<^verbatim>\<open>np.allclose(iop1, iop2)\<close> as the source calls it, on the two attributes themselves:
  with \<^verbatim>\<open>None\<close> for one of them numpy raises.
\<close>

definition np_allclose :: "mat32 option \<Rightarrow> mat32 option \<Rightarrow> error + bool" where
  "np_allclose a b =
     (case (a, b) of
        (Some x, Some y) \<Rightarrow> Inr (allclose default_rtol default_atol (elems32 x) (elems32 y))
      | _ \<Rightarrow> Inl TypeError)"

text \<open>
  \<^verbatim>\<open>_ice_matcher\<close>: \<^verbatim>\<open>inds\<close> is an array of integers, so \<^verbatim>\<open>ice1[inds]\<close> picks the items
  at the positions 1, 1, 1, 1, 1, 1, 0, 0, 1.
\<close>

definition inds :: "nat list" where
  "inds = [1, 1, 1, 1, 1, 1, 0, 0, 1]"

definition ice_matcher :: "string list \<Rightarrow> string list \<Rightarrow> error + bool" where
  "ice_matcher ice1 ice2 =
     (if length ice1 < 2 \<or> length ice2 < 2 then Inl IndexError
      else Inr (map (\<lambda>i. ice1 ! i) inds = map (\<lambda>i. ice2 ! i) inds))"

fun csa_header_of :: "'a wrapper \<Rightarrow> csa_header" where
  "csa_header_of (Wrapper d) = empty_csa"
| "csa_header_of (SiemensWrapper d c) = c"
| "csa_header_of (MosaicWrapper d c n) = c"

fun ice_dims :: "'a wrapper \<Rightarrow> string list option" where
  "ice_dims (Wrapper d) = None"
| "ice_dims w = get_ice_dims (csa_header_of w)"

type_synonym matchers =
  "int option \<times> image_shape_t option \<times> string list option \<times> string option \<times>
   string option \<times> int option"

definition get_matchers :: "'a wrapper \<Rightarrow> error + matchers" where
  "get_matchers hdr =
     (case image_shape hdr of
        Inl e \<Rightarrow> Inl e
      | Inr shp \<Rightarrow>
          Inr (SeriesNumber (dcm hdr), shp, ImageType (dcm hdr), SequenceName (dcm hdr),
               SeriesInstanceID (dcm hdr), EchoNumbers (dcm hdr)))"

definition maybe_same_volume_as :: "'a wrapper \<Rightarrow> 'b wrapper \<Rightarrow> error + bool" where
  "maybe_same_volume_as self other =
     (case get_matchers self of
        Inl e \<Rightarrow> Inl e
      | Inr m1 \<Rightarrow>
     (case get_matchers other of
        Inl e \<Rightarrow> Inl e
      | Inr m2 \<Rightarrow>
     (if m1 \<noteq> m2 then Inr False
      else
     (let iop1 = image_orient_patient self; iop2 = image_orient_patient other
      in
     (case none_matcher iop1 iop1 (\<lambda>x y. np_allclose iop1 iop2) of
        Inl e \<Rightarrow> Inl e
      | Inr iop_ok \<Rightarrow>
     (if \<not> iop_ok then Inr False
      else
     (case none_matcher (ice_dims self) (ice_dims other) ice_matcher of
        Inl e \<Rightarrow> Inl e
      | Inr ice_ok \<Rightarrow>
     (if \<not> ice_ok then Inr False
      else
     (case none_matcher (InstanceNumber (dcm self)) (InstanceNumber (dcm other)) eq_match of
        Inl e \<Rightarrow> Inl e
      | Inr in_match \<Rightarrow>
     (if in_match then Inr False
      else
     (case slice_indicator self of
        Inl e \<Rightarrow> Inl e
      | Inr z1 \<Rightarrow>
     (case slice_indicator other of
        Inl e \<Rightarrow> Inl e
      | Inr z2 \<Rightarrow> (if z1 = z2 then Inr False else Inr True)))))))))))))"

section \<open>The Siemens wrapper: diffusion\<close>

text \<open>
  \<^verbatim>\<open>b_matrix\<close> and \<^verbatim>\<open>q_vector\<close>. The general wrapper has the class attributes
  \<^verbatim>\<open>b_matrix = None\<close> and \<^verbatim>\<open>q_vector = None\<close>. The numeric helpers
  \<^verbatim>\<open>nearest_pos_semi_def\<close> (of \<^verbatim>\<open>core.geometry\<close>) and \<^verbatim>\<open>B2q\<close> (of \<^verbatim>\<open>dwiparams\<close>) are
  parameters. \<^verbatim>\<open>self.rotation_matrix.T\<close> on \<^verbatim>\<open>None\<close> is an \<^verbatim>\<open>AttributeError\<close>.
\<close>

fun b_matrix :: "(mat33 \<Rightarrow> mat33) \<Rightarrow> 'a wrapper \<Rightarrow> error + mat33 option" where
  "b_matrix nearest_pos_semi_def (Wrapper d) = Inr None"
| "b_matrix nearest_pos_semi_def w =
     (case get_b_matrix (csa_header_of w) of
        None \<Rightarrow>
          (case get_b_value (csa_header_of w) of
             None \<Rightarrow> Inr None
           | Some bval_requested \<Rightarrow>
               if bval_requested \<noteq> 0 then Inl CSAError else Inr (Some zeros33))
      | Some B \<Rightarrow>
          (case rotation_matrix w of
             Inl e \<Rightarrow> Inl e
           | Inr None \<Rightarrow> Inl AttributeError
           | Inr (Some rot) \<Rightarrow>
               (let R = mat_T rot;
                    B_vox = mat_dot R (mat_dot B (mat_T R))
                in Inr (Some (nearest_pos_semi_def B_vox)))))"

fun q_vector ::
  "(mat33 \<Rightarrow> mat33) \<Rightarrow> (mat33 \<Rightarrow> vec3) \<Rightarrow> 'a wrapper \<Rightarrow> error + vec3 option" where
  "q_vector nearest_pos_semi_def B2q (Wrapper d) = Inr None"
| "q_vector nearest_pos_semi_def B2q w =
     (case b_matrix nearest_pos_semi_def w of
        Inl e \<Rightarrow> Inl e
      | Inr None \<Rightarrow> Inr None
      | Inr (Some B) \<Rightarrow> Inr (Some (B2q B)))"

section \<open>The mosaic wrapper: data\<close>

text \<open>
  The numpy operations of \<^verbatim>\<open>MosaicWrapper.get_data\<close> on arrays in C order.
  \<^verbatim>\<open>reshape\<close> keeps the items and needs the new shape to hold as many.
  \<^verbatim>\<open>np.rollaxis(v4, 2, 1)\<close> on a four-dimensional array swaps the two middle axes.
  \<^verbatim>\<open>v3[:n]\<close> keeps the first \<open>n\<close> entries along the first axis.
\<close>

definition reshape :: "'a ndarray \<Rightarrow> nat list \<Rightarrow> error + 'a ndarray" where
  "reshape a shp =
     (if prod_list shp = length (items a) then Inr \<lparr>shape = shp, items = items a\<rparr>
      else Inl ValueError)"

definition rollaxis_2_1 :: "'a ndarray \<Rightarrow> 'a ndarray" where
  "rollaxis_2_1 a =
     (case shape a of
        [d0, d1, d2, d3] \<Rightarrow>
          \<lparr>shape = [d0, d2, d1, d3],
           items = concat (map (\<lambda>i0. concat (map (\<lambda>i2. concat (map (\<lambda>i1.
                     map (\<lambda>i3. items a ! (((i0 * d1 + i1) * d2 + i2) * d3 + i3)) [0..<d3])
                   [0..<d1])) [0..<d2])) [0..<d0])\<rparr>
      | _ \<Rightarrow> a)"

definition take_first :: "nat \<Rightarrow> 'a ndarray \<Rightarrow> 'a ndarray" where
  "take_first n a =
     (case shape a of
        [] \<Rightarrow> a
      | d0 # ds \<Rightarrow> \<lparr>shape = min n d0 # ds, items = take (min n d0 * prod_list ds) (items a)\<rparr>)"

text \<open>
  \<^verbatim>\<open>MosaicWrapper.get_data\<close>. The float arguments of \<^verbatim>\<open>reshape\<close> are truncated to
  integers, as the numpy of the module's time did.
\<close>

definition get_data_mosaic ::
  "('a ndarray \<Rightarrow> real \<Rightarrow> 'a ndarray) \<Rightarrow> ('a ndarray \<Rightarrow> real \<Rightarrow> 'a ndarray) \<Rightarrow>
   'a wrapper \<Rightarrow> error + 'a ndarray" where
  "get_data_mosaic mul add w =
     (case image_shape w of
        Inl e \<Rightarrow> Inl e
      | Inr None \<Rightarrow> Inl WrapperError
      | Inr (Some (Shape2 r c)) \<Rightarrow> Inl ValueError
      | Inr (Some (Shape3 n_rows n_cols n_mos)) \<Rightarrow>
          (case get_pixel_array w of
             Inl e \<Rightarrow> Inl e
           | Inr data \<Rightarrow>
               (let ms = mosaic_size w;
                    nr = nat \<lfloor>n_rows\<rfloor>;
                    nc = nat \<lfloor>n_cols\<rfloor>
                in case reshape data [ms, nr, ms, nc] of
                     Inl e \<Rightarrow> Inl e
                   | Inr v4 \<Rightarrow>
                       (case reshape (rollaxis_2_1 v4) [ms * ms, nr, nc] of
                          Inl e \<Rightarrow> Inl e
                        | Inr v3 \<Rightarrow> Inr (scale_data mul add w (take_first n_mos v3))))))"

fun get_data ::
  "('a ndarray \<Rightarrow> real \<Rightarrow> 'a ndarray) \<Rightarrow> ('a ndarray \<Rightarrow> real \<Rightarrow> 'a ndarray) \<Rightarrow>
   'a wrapper \<Rightarrow> error + 'a ndarray" where
  "get_data mul add (MosaicWrapper d c n) = get_data_mosaic mul add (MosaicWrapper d c n)"
| "get_data mul add w = get_data_base mul add w"

text \<open>
  Elementwise arithmetic on arrays of reals: one instance of the parameters \<open>mul\<close> and
  \<open>add\<close>, for the examples.
\<close>

definition arr_mul :: "real ndarray \<Rightarrow> real \<Rightarrow> real ndarray" where
  "arr_mul a s = a\<lparr>items := map (\<lambda>x. x * s) (items a)\<rparr>"

definition arr_add :: "real ndarray \<Rightarrow> real \<Rightarrow> real ndarray" where
  "arr_add a s = a\<lparr>items := map (\<lambda>x. x + s) (items a)\<rparr>"

section \<open>Example records\<close>

text \<open>
  An orientation whose first direction cosine vector is too long by two parts in a
  million, and the matrix \<^verbatim>\<open>rotation_matrix\<close> builds from it.
\<close>

definition stretched_dcm :: "real dcm_data" where
  "stretched_dcm = empty_dcm\<lparr>ImageOrientationPatient := Some (500001 / 500000, 0, 0, 0, 1, 0)\<rparr>"

definition stretched_R :: mat33 where
  "stretched_R = ((500001 / 500000, 0, 0), (0, 1, 0), (0, 0, 500001 / 500000))"

text \<open>
  A record whose first direction cosine vector has length 2, and no pixel spacing.
\<close>

definition doubled_dcm :: "real dcm_data" where
  "doubled_dcm = empty_dcm\<lparr>ImageOrientationPatient := Some (2, 0, 0, 0, 1, 0)\<rparr>"

text \<open>An axial slice at height \<open>z\<close>.\<close>

definition slice_at :: "real \<Rightarrow> real dcm_data" where
  "slice_at z = empty_dcm\<lparr>ImageOrientationPatient := Some (1, 0, 0, 0, 1, 0),
     ImagePositionPatient := Some (0, 0, z)\<rparr>"

text \<open>
  A mosaic of 4 by 4 pixels holding three tiles of 2 by 2, filled with 0, 1 and 2, and
  one padding tile, filled with 3.
\<close>

definition tiled_dcm :: "real dcm_data" where
  "tiled_dcm = empty_dcm\<lparr>Rows := Some 4, Columns := Some 4,
     pixel_array := Some \<lparr>shape = [4, 4],
       items = [0, 0, 1, 1,
                0, 0, 1, 1,
                2, 2, 3, 3,
                2, 2, 3, 3]\<rparr>\<rparr>"

section \<open>Properties\<close>

subsection \<open>The mosaic size is the ceiling of the square root\<close>

declare ceil_sqrt_from.simps [simp del]

lemma ceil_sqrt_from_spec:
  "(\<And>j. j < k \<Longrightarrow> j * j < n) \<Longrightarrow>
   n \<le> ceil_sqrt_from n k * ceil_sqrt_from n k \<and> (\<forall>j < ceil_sqrt_from n k. j * j < n)"
proof (induction n k rule: ceil_sqrt_from.induct)
  case (1 n k)
  show ?case
  proof (cases "n \<le> k * k")
    case True
    then show ?thesis using 1(2) by (simp add: ceil_sqrt_from.simps [of n k])
  next
    case False
    have "\<And>j. j < Suc k \<Longrightarrow> j * j < n"
      using False 1(2) by (metis less_Suc_eq not_le)
    then show ?thesis
      using False 1(1) by (simp add: ceil_sqrt_from.simps [of n k])
  qed
qed

lemma ceil_sqrt_spec:
  "n \<le> ceil_sqrt n * ceil_sqrt n \<and> (\<forall>j < ceil_sqrt n. j * j < n)"
  unfolding ceil_sqrt_def by (rule ceil_sqrt_from_spec) simp

lemma ceil_sqrt_is_ceiling_sqrt: "int (ceil_sqrt n) = \<lceil>sqrt (real n)\<rceil>"
proof (rule sym, rule ceiling_unique)
  let ?k = "ceil_sqrt n"
  have up: "n \<le> ?k * ?k" using ceil_sqrt_spec by blast
  have "real n \<le> (real ?k)\<^sup>2"
    using up by (metis of_nat_le_iff of_nat_mult power2_eq_square)
  then show "sqrt (real n) \<le> real_of_int (int ?k)"
    by (simp add: real_le_lsqrt)
  show "real_of_int (int ?k) - 1 < sqrt (real n)"
  proof (cases "?k = 0")
    case True
    have "0 \<le> sqrt (real n)" by simp
    then show ?thesis using True by linarith
  next
    case False
    then have "?k - 1 < ?k" by simp
    then have "(?k - 1) * (?k - 1) < n" using ceil_sqrt_spec by blast
    then have "(real (?k - 1))\<^sup>2 < real n"
      by (metis of_nat_less_iff of_nat_mult power2_eq_square)
    then have "real (?k - 1) < sqrt (real n)" by (rule real_less_rsqrt)
    moreover have "real (?k - 1) = real ?k - 1" using False by (simp add: of_nat_diff)
    ultimately show ?thesis by simp
  qed
qed

lemma ceil_sqrt_pos: "0 < n \<Longrightarrow> 0 < ceil_sqrt n"
  using ceil_sqrt_spec [of n] by (cases "ceil_sqrt n") auto

subsection \<open>Which errors an attribute can give\<close>

lemma mat_T_involution: "mat_T (mat_T A) = A"
  by (cases A rule: mat_T.cases) simp

lemma rotation_matrix_error: "rotation_matrix w = Inl e \<Longrightarrow> e = AssertionError"
  by (auto simp: rotation_matrix_def Let_def split: option.splits if_splits)

lemma image_position_error: "image_position w = Inl e \<Longrightarrow> e = FloatNonFinite"
  by (cases w) (auto simp: Let_def split: option.splits if_splits prod.splits)

subsection \<open>The affine\<close>

text \<open>
  Claim C3, as stated, fails: it says that \<open>get_affine\<close> raises \<open>WrapperError\<close> if and
  only if one of the rotation matrix, the voxel sizes and the image position is \<open>None\<close>.
  \<open>get_affine\<close> reads the rotation matrix first. For the record with the doubled
  direction cosine vector and no pixel spacing the voxel sizes are \<open>None\<close>, but the
  assertion of \<open>rotation_matrix\<close> fails before the test for \<open>None\<close>, and \<open>get_affine\<close>
  ends with \<open>AssertionError\<close>.
\<close>

theorem get_affine_assertion_counterexample:
  "voxel_sizes (Wrapper doubled_dcm) = None
   \<and> rotation_matrix (Wrapper doubled_dcm) = Inl AssertionError
   \<and> get_affine (Wrapper doubled_dcm) = Inl AssertionError
   \<and> get_affine (Wrapper doubled_dcm) \<noteq> Inl WrapperError"
  by (simp add: get_affine_def rotation_matrix_def image_orient_patient_def voxel_sizes_def
      doubled_dcm_def empty_dcm_def allclose_def close_to_def default_rtol_def eye3_def)

text \<open>
  Claim C3, amended. When the rotation matrix, the voxel sizes and the image position are
  all there, \<open>get_affine\<close> returns the 4 by 4 matrix whose upper-left 3 by 3 block is the
  rotation matrix with column \<open>j\<close> multiplied by the \<open>j\<close>-th voxel size, whose last column
  holds the image position in its rows 0 to 2, and whose bottom row is \<open>(0, 0, 0, 1)\<close>.
  It raises \<open>WrapperError\<close> if and only if the rotation matrix and the image position
  evaluate without failure and one of the rotation matrix, the voxel sizes and the image
  position is \<open>None\<close>.
\<close>

theorem get_affine_correct:
  "(rotation_matrix w = Inr (Some ((r11, r12, r13), (r21, r22, r23), (r31, r32, r33)))
      \<and> voxel_sizes w = Some (v1, v2, v3) \<and> image_position w = Inr (Some (p1, p2, p3))
      \<longrightarrow> get_affine w =
            Inr ((r11 * v1, r12 * v2, r13 * v3, p1),
                 (r21 * v1, r22 * v2, r23 * v3, p2),
                 (r31 * v1, r32 * v2, r33 * v3, p3),
                 (0, 0, 0, 1)))
   \<and> (get_affine w = Inl WrapperError \<longleftrightarrow>
        (\<exists>orient ipp. rotation_matrix w = Inr orient \<and> image_position w = Inr ipp
           \<and> (orient = None \<or> voxel_sizes w = None \<or> ipp = None)))"
  by (auto simp: get_affine_def split: sum.splits option.splits prod.splits
      dest: rotation_matrix_error image_position_error)

theorem get_affine_correct_witness:
  "get_affine (Wrapper (empty_dcm\<lparr>ImageOrientationPatient := Some (1, 0, 0, 0, 1, 0),
       PixelSpacing := Some (2, 3), ImagePositionPatient := Some (10, 20, 30)\<rparr>) :: real wrapper)
     = Inr ((2, 0, 0, 10), (0, 3, 0, 20), (0, 0, 1, 30), (0, 0, 0, 1))
   \<and> get_affine (Wrapper empty_dcm :: real wrapper) = Inl WrapperError"
  using get_affine_correct [of "Wrapper (empty_dcm\<lparr>ImageOrientationPatient := Some (1, 0, 0, 0, 1, 0),
       PixelSpacing := Some (2, 3), ImagePositionPatient := Some (10, 20, 30)\<rparr>) :: real wrapper"
       1 0 0 0 1 0 0 0 1 2 3 1 10 20 30]
    get_affine_correct [of "Wrapper empty_dcm :: real wrapper"]
  by (simp add: rotation_matrix_def image_orient_patient_def voxel_sizes_def empty_dcm_def
      allclose_def close_to_def default_rtol_def eye3_def)

subsection \<open>Rescaling\<close>

text \<open>
  Claim C5. With \<open>slope\<close> the \<^verbatim>\<open>RescaleSlope\<close> of the record (1 when absent) and
  \<open>intercept\<close> its \<^verbatim>\<open>RescaleIntercept\<close> (0 when absent), the rescale of \<open>get_data\<close> returns
  the data themselves when \<open>slope = 1\<close> and \<open>intercept = 0\<close>; \<open>data * slope\<close>, with no
  addition, when \<open>intercept = 0\<close> and \<open>slope \<noteq> 1\<close>; \<open>data * slope + intercept\<close> when
  neither holds; and \<open>data + intercept\<close> when \<open>slope = 1\<close> and \<open>intercept \<noteq> 0\<close>.
\<close>

theorem scale_data_cases:
  assumes "slope = (case RescaleSlope (dcm w) of None \<Rightarrow> 1 | Some s \<Rightarrow> s)"
    and "intercept = (case RescaleIntercept (dcm w) of None \<Rightarrow> 0 | Some i \<Rightarrow> i)"
  shows "(slope = 1 \<and> intercept = 0 \<longrightarrow> scale_data mul add w data = data)
       \<and> (slope \<noteq> 1 \<and> intercept = 0 \<longrightarrow> scale_data mul add w data = mul data slope)
       \<and> (slope \<noteq> 1 \<and> intercept \<noteq> 0 \<longrightarrow>
            scale_data mul add w data = add (mul data slope) intercept)
       \<and> (slope = 1 \<and> intercept \<noteq> 0 \<longrightarrow> scale_data mul add w data = add data intercept)"
  using assms by (simp add: scale_data_def Let_def)

theorem scale_data_cases_witness:
  "scale_data arr_mul arr_add (Wrapper (empty_dcm\<lparr>RescaleSlope := Some 2\<rparr>))
     \<lparr>shape = [1, 2], items = [3, 4]\<rparr> = \<lparr>shape = [1, 2], items = [6, 8]\<rparr>
   \<and> scale_data arr_mul arr_add (Wrapper empty_dcm)
     \<lparr>shape = [1, 2], items = [3, 4]\<rparr> = \<lparr>shape = [1, 2], items = [3, 4]\<rparr>"
  using scale_data_cases [of 2 "Wrapper (empty_dcm\<lparr>RescaleSlope := Some 2\<rparr>)" 0 arr_mul arr_add
      "\<lparr>shape = [1, 2], items = [3, 4]\<rparr>"]
    scale_data_cases [of 1 "Wrapper empty_dcm" 0 arr_mul arr_add
      "\<lparr>shape = [1, 2], items = [3, 4]\<rparr>"]
  by (simp add: empty_dcm_def arr_mul_def)

subsection \<open>Diffusion\<close>

text \<open>
  Claim C6. When the sub-header has no b-matrix: with no b-value either, \<open>b_matrix\<close> is
  \<open>None\<close>; with a b-value other than zero, evaluating \<open>b_matrix\<close> raises \<open>CSAError\<close>; with
  the b-value zero, \<open>b_matrix\<close> is the 3 by 3 zero matrix. And whenever \<open>b_matrix\<close> is
  \<open>None\<close>, so is \<open>q_vector\<close>.
\<close>

theorem b_matrix_without_csa_b_matrix:
  assumes "get_b_matrix (csa_header_of w) = None"
  shows "(get_b_value (csa_header_of w) = None \<longrightarrow> b_matrix npsd w = Inr None)
       \<and> (\<forall>b. get_b_value (csa_header_of w) = Some b \<and> b \<noteq> 0 \<longrightarrow>
            b_matrix npsd w = Inl CSAError)
       \<and> (get_b_value (csa_header_of w) = Some 0 \<longrightarrow>
            b_matrix npsd w = Inr (Some ((0, 0, 0), (0, 0, 0), (0, 0, 0))))
       \<and> (b_matrix npsd w = Inr None \<longrightarrow> q_vector npsd B2q w = Inr None)"
  using assms by (cases w) (auto simp: zeros33_def empty_csa_def)

theorem b_matrix_without_csa_b_matrix_witness:
  "b_matrix (\<lambda>B. B) (SiemensWrapper empty_dcm (empty_csa\<lparr>get_b_value := Some 0\<rparr>) :: real wrapper)
     = Inr (Some ((0, 0, 0), (0, 0, 0), (0, 0, 0)))
   \<and> b_matrix (\<lambda>B. B) (SiemensWrapper empty_dcm (empty_csa\<lparr>get_b_value := Some 1000\<rparr>) :: real wrapper)
     = Inl CSAError
   \<and> b_matrix (\<lambda>B. B) (MosaicWrapper empty_dcm empty_csa 4 :: real wrapper) = Inr None
   \<and> q_vector (\<lambda>B. B) (\<lambda>B. (0, 0, 0)) (MosaicWrapper empty_dcm empty_csa 4 :: real wrapper)
     = Inr None"
  using b_matrix_without_csa_b_matrix [of "SiemensWrapper empty_dcm (empty_csa\<lparr>get_b_value := Some 0\<rparr>) :: real wrapper" "\<lambda>B. B" "\<lambda>B. (0, 0, 0)"]
    b_matrix_without_csa_b_matrix [of "SiemensWrapper empty_dcm (empty_csa\<lparr>get_b_value := Some 1000\<rparr>) :: real wrapper" "\<lambda>B. B" "\<lambda>B. (0, 0, 0)"]
    b_matrix_without_csa_b_matrix [of "MosaicWrapper empty_dcm empty_csa 4 :: real wrapper" "\<lambda>B. B" "\<lambda>B. (0, 0, 0)"]
  by (simp add: empty_csa_def)

text \<open>
  Claim C7. When the sub-header has the b-matrix \<open>B_physical\<close> and the rotation matrix
  \<open>R\<close> is there, \<open>b_matrix\<close> is \<^verbatim>\<open>nearest_pos_semi_def\<close> applied to the product of the
  transpose of \<open>R\<close>, \<open>B_physical\<close> and \<open>R\<close>.
\<close>

theorem b_matrix_rotated:
  assumes "get_b_matrix (csa_header_of w) = Some B_physical"
    and "rotation_matrix w = Inr (Some R)"
  shows "b_matrix nearest_pos_semi_def w =
           Inr (Some (nearest_pos_semi_def (mat_dot (mat_T R) (mat_dot B_physical R))))"
  using assms by (cases w) (auto simp: empty_csa_def mat_T_involution)

theorem b_matrix_rotated_witness:
  "b_matrix (\<lambda>B. B) (SiemensWrapper (empty_dcm\<lparr>ImageOrientationPatient := Some (0, 1, 0, 1, 0, 0)\<rparr>)
        (empty_csa\<lparr>get_b_matrix := Some ((1, 2, 3), (2, 4, 5), (3, 5, 6))\<rparr>) :: real wrapper)
     = Inr (Some ((4, 2, - 5), (2, 1, - 3), (- 5, - 3, 6)))"
  using b_matrix_rotated [of "SiemensWrapper (empty_dcm\<lparr>ImageOrientationPatient := Some (0, 1, 0, 1, 0, 0)\<rparr>)
        (empty_csa\<lparr>get_b_matrix := Some ((1, 2, 3), (2, 4, 5), (3, 5, 6))\<rparr>) :: real wrapper"
      "((1, 2, 3), (2, 4, 5), (3, 5, 6))" "((0, 1, 0), (1, 0, 0), (0, 0, - 1))" "\<lambda>B. B"]
  by (simp add: rotation_matrix_def image_orient_patient_def empty_dcm_def empty_csa_def
      allclose_def close_to_def default_rtol_def eye3_def)

subsection \<open>The position of a mosaic\<close>

lemma ceil_sqrt_4: "ceil_sqrt 4 = 2"
  by code_simp

text \<open>
  Claim C8. For a mosaic wrapper with \<open>n_mosaic > 0\<close>, grid size \<open>g\<close>, the recorded
  position, rows, columns, orientation and voxel sizes all there, \<open>image_position\<close> is the
  recorded position plus the orientation matrix, its columns scaled by the two in-plane
  voxel sizes, applied to \<open>((rows - rows / g) / 2, (cols - cols / g) / 2)\<close>. If one of
  the five inputs is missing, \<open>image_position\<close> is \<open>None\<close>. The witness is the example of
  the specification: 192 rows and columns, grid size 2, identity orientation, unit voxel
  sizes, position \<open>(0, 0, 0)\<close>, corrected to \<open>(48, 48, 0)\<close>.
\<close>

theorem mosaic_image_position:
  assumes "g = real (mosaic_size (MosaicWrapper d c n))"
  shows "(0 < n \<and> ImagePositionPatient d = Some (p1, p2, p3) \<and> Rows d = Some rows
          \<and> Columns d = Some cols
          \<and> image_orient_patient (MosaicWrapper d c n) = Some ((m11, m12), (m21, m22), (m31, m32))
          \<and> voxel_sizes (MosaicWrapper d c n) = Some (v1, v2, v3)
          \<longrightarrow> image_position (MosaicWrapper d c n) =
                Inr (Some
                  (p1 + (m11 * v1 * ((real rows - real rows / g) / 2)
                         + m12 * v2 * ((real cols - real cols / g) / 2)),
                   p2 + (m21 * v1 * ((real rows - real rows / g) / 2)
                         + m22 * v2 * ((real cols - real cols / g) / 2)),
                   p3 + (m31 * v1 * ((real rows - real rows / g) / 2)
                         + m32 * v2 * ((real cols - real cols / g) / 2)))))
       \<and> (ImagePositionPatient d = None \<or> Rows d = None \<or> Columns d = None
          \<or> image_orient_patient (MosaicWrapper d c n) = None
          \<or> voxel_sizes (MosaicWrapper d c n) = None
          \<longrightarrow> image_position (MosaicWrapper d c n) = Inr None)"
proof -
  have "0 < n \<Longrightarrow> mosaic_size (MosaicWrapper d c n) \<noteq> 0"
    using ceil_sqrt_pos [of n] by (simp add: mosaic_size_def)
  then show ?thesis
    using assms by (auto simp: Let_def split: option.splits prod.splits)
qed

theorem mosaic_image_position_witness:
  "image_position (MosaicWrapper (empty_dcm\<lparr>Rows := Some 192, Columns := Some 192,
       ImageOrientationPatient := Some (1, 0, 0, 0, 1, 0), PixelSpacing := Some (1, 1),
       ImagePositionPatient := Some (0, 0, 0)\<rparr>) empty_csa 4 :: real wrapper)
     = Inr (Some (48, 48, 0))
   \<and> image_position (MosaicWrapper (empty_dcm\<lparr>Rows := Some 192, Columns := Some 192\<rparr>)
       empty_csa 4 :: real wrapper) = Inr None"
  using mosaic_image_position [where g = 2 and n = 4 and c = empty_csa
       and d = "empty_dcm\<lparr>Rows := Some 192, Columns := Some 192,
         ImageOrientationPatient := Some (1, 0, 0, 0, 1, 0), PixelSpacing := Some (1, 1),
         ImagePositionPatient := Some (0, 0, 0)\<rparr> :: real dcm_data"
       and ?p1.0 = 0 and ?p2.0 = 0 and ?p3.0 = 0 and rows = 192 and cols = 192
       and ?m11.0 = 1 and ?m12.0 = 0 and ?m21.0 = 0 and ?m22.0 = 1 and ?m31.0 = 0 and ?m32.0 = 0
       and ?v1.0 = 1 and ?v2.0 = 1 and ?v3.0 = 1]
    mosaic_image_position [where g = 2 and n = 4 and c = empty_csa
       and d = "empty_dcm\<lparr>Rows := Some 192, Columns := Some 192\<rparr> :: real dcm_data"]
  by (simp add: image_orient_patient_def voxel_sizes_def empty_dcm_def mosaic_size_def ceil_sqrt_4)

subsection \<open>The rotation matrix\<close>

lemma allclose_unfold:
  "allclose rtol atol xs ys = list_all2 (\<lambda>x y. \<bar>x - y\<bar> \<le> atol + rtol * \<bar>y\<bar>) xs ys"
  by (simp add: allclose_def close_to_def [abs_def])

text \<open>
  Claim C4, as stated, fails: the test of \<^verbatim>\<open>rotation_matrix\<close> is \<^verbatim>\<open>np.allclose\<close> with
  \<^verbatim>\<open>atol=1e-6\<close> and numpy's default \<^verbatim>\<open>rtol=1e-5\<close>, not an absolute tolerance of
  \<open>1e-6\<close>. For the stretched orientation the matrix is returned, though the product of
  the matrix and its transpose is farther than \<open>1e-6\<close> from the identity.
\<close>

theorem rotation_matrix_tolerance_counterexample:
  "rotation_matrix (Wrapper stretched_dcm) = Inr (Some stretched_R)
   \<and> \<not> allclose 0 (1 / 1000000) (elems33 eye3)
         (elems33 (mat_dot stretched_R (mat_T stretched_R)))"
  by (simp add: rotation_matrix_def image_orient_patient_def stretched_dcm_def stretched_R_def
      empty_dcm_def allclose_def close_to_def default_rtol_def eye3_def)

text \<open>
  Claim C4, amended. If the orientation or the slice normal is \<open>None\<close>, \<open>rotation_matrix\<close>
  is \<open>None\<close>. Otherwise let \<open>R\<close> be the matrix with the columns orientation column 0,
  orientation column 1, slice normal. If every entry \<open>y\<close> of \<open>R\<close> times its transpose and
  the entry \<open>x\<close> of the identity at its place satisfy
  \<open>|x - y| \<le> 1e-6 + 1e-5 * |y|\<close>, then \<open>rotation_matrix\<close> is \<open>R\<close>; if not, the assertion
  fails.
\<close>

theorem rotation_matrix_spec:
  "(image_orient_patient w = None \<or> slice_normal w = None \<longrightarrow> rotation_matrix w = Inr None)
   \<and> (image_orient_patient w = Some ((a, d), (b, e), (c, f)) \<and> slice_normal w = Some (s1, s2, s3)
        \<longrightarrow> rotation_matrix w =
             (if list_all2 (\<lambda>x y. \<bar>x - y\<bar> \<le> 1 / 1000000 + 1 / 100000 * \<bar>y\<bar>)
                   [1, 0, 0, 0, 1, 0, 0, 0, 1]
                   (elems33 (mat_dot ((a, d, s1), (b, e, s2), (c, f, s3))
                                     (mat_T ((a, d, s1), (b, e, s2), (c, f, s3)))))
              then Inr (Some ((a, d, s1), (b, e, s2), (c, f, s3)))
              else Inl AssertionError))"
proof -
  have eye: "elems33 eye3 = [1, 0, 0, 0, 1, 0, 0, 0, 1]"
    by (simp add: eye3_def)
  show ?thesis
    unfolding rotation_matrix_def allclose_unfold eye default_rtol_def
    by (simp add: Let_def split: option.splits del: mat_dot.simps mat_T.simps)
qed

theorem rotation_matrix_spec_witness:
  "rotation_matrix (Wrapper (empty_dcm\<lparr>ImageOrientationPatient := Some (0, 1, 0, 1, 0, 0)\<rparr>) :: real wrapper)
     = Inr (Some ((0, 1, 0), (1, 0, 0), (0, 0, - 1)))
   \<and> rotation_matrix (Wrapper (empty_dcm\<lparr>ImageOrientationPatient := Some (2, 0, 0, 0, 1, 0)\<rparr>) :: real wrapper)
     = Inl AssertionError
   \<and> rotation_matrix (Wrapper empty_dcm :: real wrapper) = Inr None"
  using rotation_matrix_spec [of "Wrapper (empty_dcm\<lparr>ImageOrientationPatient := Some (0, 1, 0, 1, 0, 0)\<rparr>) :: real wrapper"
       0 1 1 0 0 0 0 0 "- 1"]
    rotation_matrix_spec [of "Wrapper (empty_dcm\<lparr>ImageOrientationPatient := Some (2, 0, 0, 0, 1, 0)\<rparr>) :: real wrapper"
       2 0 0 1 0 0 0 0 2]
    rotation_matrix_spec [of "Wrapper empty_dcm :: real wrapper"]
  by (simp add: image_orient_patient_def empty_dcm_def)

subsection \<open>Volume matching\<close>

lemmas msv_eval = maybe_same_volume_as_def get_matchers_def none_matcher_def np_allclose_def
  eq_match_def slice_indicator_def image_orient_patient_def slice_at_def empty_dcm_def
  allclose_def close_to_def default_rtol_def default_atol_def Let_def

text \<open>
  Claim C1, as stated, fails: two slices with the same discriminating fields, the same
  orientation, no vendor indices, no instance number and different slice indicators are
  not taken for one volume, because \<^verbatim>\<open>none_matcher\<close> counts two absent instance numbers
  as a match.
\<close>

theorem instance_number_absent_counterexample:
  "InstanceNumber (dcm (Wrapper (slice_at 0))) = None
   \<and> InstanceNumber (dcm (Wrapper (slice_at 1))) = None
   \<and> get_matchers (Wrapper (slice_at 0)) = get_matchers (Wrapper (slice_at 1))
   \<and> image_orient_patient (Wrapper (slice_at 0)) = image_orient_patient (Wrapper (slice_at 1))
   \<and> ice_dims (Wrapper (slice_at 0)) = ice_dims (Wrapper (slice_at 1))
   \<and> slice_indicator (Wrapper (slice_at 0)) = Inr (Some 0)
   \<and> slice_indicator (Wrapper (slice_at 1)) = Inr (Some 1)
   \<and> maybe_same_volume_as (Wrapper (slice_at 0)) (Wrapper (slice_at 1)) = Inr False"
  by (simp add: msv_eval)

text \<open>
  Claim C1, amended. If the two instance numbers are both present and equal, or both
  absent, \<open>maybe_same_volume_as\<close> does not return \<open>True\<close>; it returns \<open>False\<close> whenever
  the steps before raise nothing, which is so when the image shapes are finite, the
  orientation of \<open>other\<close> is there if that of \<open>self\<close> is, and the vendor indices have two
  entries at least.
\<close>

theorem instance_number_rule:
  assumes "(\<exists>i. InstanceNumber (dcm self) = Some i \<and> InstanceNumber (dcm other) = Some i)
           \<or> (InstanceNumber (dcm self) = None \<and> InstanceNumber (dcm other) = None)"
  shows "maybe_same_volume_as self other \<noteq> Inr True
       \<and> ((\<exists>m1 m2. get_matchers self = Inr m1 \<and> get_matchers other = Inr m2)
            \<and> (image_orient_patient self = None \<or> image_orient_patient other \<noteq> None)
            \<and> (\<forall>a b. ice_dims self = Some a \<and> ice_dims other = Some b \<longrightarrow>
                 2 \<le> length a \<and> 2 \<le> length b)
            \<longrightarrow> maybe_same_volume_as self other = Inr False)"
proof -
  have m: "none_matcher (InstanceNumber (dcm self)) (InstanceNumber (dcm other)) eq_match = Inr True"
    using assms by (auto simp: none_matcher_def eq_match_def)
  have iop: "image_orient_patient self = None \<or> image_orient_patient other \<noteq> None \<Longrightarrow>
     \<exists>b. none_matcher (image_orient_patient self) (image_orient_patient self)
            (\<lambda>x y. np_allclose (image_orient_patient self) (image_orient_patient other)) = Inr b"
    by (auto simp: none_matcher_def np_allclose_def split: option.splits)
  have ice: "(\<forall>a b. ice_dims self = Some a \<and> ice_dims other = Some b \<longrightarrow>
                 2 \<le> length a \<and> 2 \<le> length b) \<Longrightarrow>
     \<exists>b. none_matcher (ice_dims self) (ice_dims other) ice_matcher = Inr b"
    by (auto simp: none_matcher_def ice_matcher_def split: option.splits)
  show ?thesis
  proof (intro conjI impI)
    show "maybe_same_volume_as self other \<noteq> Inr True"
      unfolding maybe_same_volume_as_def m
      by (simp add: Let_def split: sum.splits)
    assume a: "(\<exists>m1 m2. get_matchers self = Inr m1 \<and> get_matchers other = Inr m2)
            \<and> (image_orient_patient self = None \<or> image_orient_patient other \<noteq> None)
            \<and> (\<forall>a b. ice_dims self = Some a \<and> ice_dims other = Some b \<longrightarrow>
                 2 \<le> length a \<and> 2 \<le> length b)"
    from a obtain m1 m2 where g: "get_matchers self = Inr m1" "get_matchers other = Inr m2"
      by blast
    from a iop obtain b1 where b1: "none_matcher (image_orient_patient self) (image_orient_patient self)
            (\<lambda>x y. np_allclose (image_orient_patient self) (image_orient_patient other)) = Inr b1"
      by blast
    from a ice obtain b2 where b2: "none_matcher (ice_dims self) (ice_dims other) ice_matcher = Inr b2"
      by blast
    show "maybe_same_volume_as self other = Inr False"
      unfolding maybe_same_volume_as_def m g
      by (simp add: Let_def b1 b2)
  qed
qed

theorem instance_number_rule_witness:
  "maybe_same_volume_as (Wrapper ((slice_at 0)\<lparr>InstanceNumber := Some 7\<rparr>))
     (Wrapper ((slice_at 1)\<lparr>InstanceNumber := Some 7\<rparr>)) = Inr False
   \<and> maybe_same_volume_as (Wrapper (empty_dcm :: real dcm_data))
       (Wrapper (empty_dcm :: real dcm_data)) = Inr False"
  using instance_number_rule [of "Wrapper ((slice_at 0)\<lparr>InstanceNumber := Some 7\<rparr>)"
      "Wrapper ((slice_at 1)\<lparr>InstanceNumber := Some 7\<rparr>)"]
    instance_number_rule [of "Wrapper (empty_dcm :: real dcm_data)"
      "Wrapper (empty_dcm :: real dcm_data)"]
  by (simp add: get_matchers_def image_orient_patient_def slice_at_def empty_dcm_def)

text \<open>
  Claim C2 describes a comparison of the orientation of \<open>self\<close> with that of \<open>other\<close>.
  The source passes the orientation of \<open>self\<close> twice to \<^verbatim>\<open>none_matcher\<close>. So a wrapper
  without orientation matches one with orientation, and in the other order
  \<^verbatim>\<open>np.allclose\<close> is called on \<^verbatim>\<open>None\<close> and raises.
\<close>

theorem orientation_step_self_twice:
  "image_orient_patient (Wrapper (empty_dcm\<lparr>InstanceNumber := Some 1\<rparr>) :: real wrapper) = None
   \<and> image_orient_patient (Wrapper ((slice_at 0)\<lparr>InstanceNumber := Some 2\<rparr>)) \<noteq> None
   \<and> maybe_same_volume_as (Wrapper (empty_dcm\<lparr>InstanceNumber := Some 1\<rparr>) :: real wrapper)
       (Wrapper ((slice_at 0)\<lparr>InstanceNumber := Some 2\<rparr>)) = Inr True
   \<and> maybe_same_volume_as (Wrapper ((slice_at 0)\<lparr>InstanceNumber := Some 2\<rparr>))
       (Wrapper (empty_dcm\<lparr>InstanceNumber := Some 1\<rparr>) :: real wrapper) = Inl TypeError"
  by (simp add: msv_eval)

lemma no_position_never_same_volume:
  assumes "slice_indicator self = Inr None" and "slice_indicator other = Inr None"
  shows "maybe_same_volume_as self other \<noteq> Inr True"
  unfolding maybe_same_volume_as_def assms
  by (simp add: Let_def split: sum.splits)

text \<open>
  Claim C10 is about two wrappers whose slice indicators are both \<open>None\<close>. Such a pair is
  never taken for one volume, but the method does not always return \<open>False\<close>: when
  \<open>self\<close> has an orientation and \<open>other\<close> has none, the orientation step raises first.
\<close>

theorem no_position_pair_raises:
  "slice_indicator (Wrapper (empty_dcm\<lparr>ImageOrientationPatient := Some (1, 0, 0, 0, 1, 0),
       InstanceNumber := Some 1\<rparr>) :: real wrapper) = Inr None
   \<and> slice_indicator (Wrapper (empty_dcm\<lparr>InstanceNumber := Some 2\<rparr>) :: real wrapper) = Inr None
   \<and> maybe_same_volume_as
       (Wrapper (empty_dcm\<lparr>ImageOrientationPatient := Some (1, 0, 0, 0, 1, 0),
          InstanceNumber := Some 1\<rparr>) :: real wrapper)
       (Wrapper (empty_dcm\<lparr>InstanceNumber := Some 2\<rparr>) :: real wrapper) = Inl TypeError"
  by (simp add: msv_eval)

subsection \<open>The data of a mosaic\<close>

lemma ceil_sqrt_3: "ceil_sqrt 3 = 2"
  by code_simp

lemma upt_2: "[0..<2] = [0, 1]"
  by (simp add: upt_rec)

lemma block_index_less: "i < n \<Longrightarrow> k < L \<Longrightarrow> i * L + k < n * (L::nat)"
proof -
  assume a: "i < n" "k < L"
  then have "i * L + k < i * L + L" by simp
  also have "\<dots> = Suc i * L" by simp
  also have "\<dots> \<le> n * L" using a(1) by (intro mult_le_mono1) simp
  finally show ?thesis .
qed

lemma length_concat_map_upt:
  "(\<And>i. i < n \<Longrightarrow> length (f i) = L) \<Longrightarrow> length (concat (map f [0..<n])) = n * L"
  by (induction n) simp_all

lemma concat_map_upt_nth:
  "(\<And>i. i < n \<Longrightarrow> length (f i) = L) \<Longrightarrow> i < n \<Longrightarrow> k < L \<Longrightarrow>
   concat (map f [0..<n]) ! (i * L + k) = f i ! k"
proof (induction n)
  case 0
  then show ?case by simp
next
  case (Suc n)
  have len: "length (concat (map f [0..<n])) = n * L"
    using Suc.prems(1) by (intro length_concat_map_upt) simp
  show ?case
  proof (cases "i < n")
    case True
    then have "i * L + k < n * L" using Suc.prems(3) by (rule block_index_less)
    then show ?thesis
      using Suc.IH [OF _ True Suc.prems(3)] Suc.prems(1) len by (simp add: nth_append)
  next
    case False
    then have "i = n" using Suc.prems(2) by simp
    then show ?thesis using len by (simp add: nth_append)
  qed
qed

lemma rollaxis_2_1_nth:
  assumes "shape v = [d0, d1, d2, d3]"
    and "i0 < d0" and "i2 < d2" and "i1 < d1" and "i3 < d3"
  shows "items (rollaxis_2_1 v) ! (((i0 * d2 + i2) * d1 + i1) * d3 + i3)
         = items v ! (((i0 * d1 + i1) * d2 + i2) * d3 + i3)"
proof -
  let ?row = "\<lambda>i0 i2 i1. map (\<lambda>i3. items v ! (((i0 * d1 + i1) * d2 + i2) * d3 + i3)) [0..<d3]"
  let ?plane = "\<lambda>i0 i2. concat (map (?row i0 i2) [0..<d1])"
  let ?cube = "\<lambda>i0. concat (map (?plane i0) [0..<d2])"
  have it: "items (rollaxis_2_1 v) = concat (map ?cube [0..<d0])"
    by (simp add: rollaxis_2_1_def assms(1))
  have lrow: "\<And>a b r. length (?row a b r) = d3" by simp
  have lplane: "\<And>a b. length (?plane a b) = d1 * d3"
    by (rule length_concat_map_upt) simp
  have lcube: "\<And>a. length (?cube a) = d2 * (d1 * d3)"
    by (rule length_concat_map_upt) (rule lplane)
  have k1: "i1 * d3 + i3 < d1 * d3" using assms(4,5) by (rule block_index_less)
  have k2: "i2 * (d1 * d3) + (i1 * d3 + i3) < d2 * (d1 * d3)"
    using assms(3) k1 by (rule block_index_less)
  have idx: "((i0 * d2 + i2) * d1 + i1) * d3 + i3
             = i0 * (d2 * (d1 * d3)) + (i2 * (d1 * d3) + (i1 * d3 + i3))"
    by (simp add: algebra_simps)
  have "items (rollaxis_2_1 v) ! (((i0 * d2 + i2) * d1 + i1) * d3 + i3)
        = ?cube i0 ! (i2 * (d1 * d3) + (i1 * d3 + i3))"
    unfolding it idx using lcube assms(2) k2 by (rule concat_map_upt_nth)
  also have "\<dots> = ?plane i0 i2 ! (i1 * d3 + i3)"
    using lplane assms(3) k1 by (rule concat_map_upt_nth)
  also have "\<dots> = ?row i0 i2 i1 ! i3"
    using lrow assms(4,5) by (rule concat_map_upt_nth)
  also have "\<dots> = items v ! (((i0 * d1 + i1) * d2 + i2) * d3 + i3)"
    using assms(5) by simp
  finally show ?thesis .
qed


lemma mosaic_get_data_unfold:
  assumes "get_data mul add (MosaicWrapper d c n) = Inr a"
    and "RescaleSlope d = None" and "RescaleIntercept d = None"
    and "Rows d = Some rows" and "Columns d = Some cols"
    and "pixel_array d = Some data"
    and "g = mosaic_size (MosaicWrapper d c n)"
  shows "a = take_first n \<lparr>shape = [g * g, rows div g, cols div g],
               items = items (rollaxis_2_1 \<lparr>shape = [g, rows div g, g, cols div g],
                                            items = items data\<rparr>)\<rparr>"
proof -
  have fl: "nat \<lfloor>real rows / real g\<rfloor> = rows div g" "nat \<lfloor>real cols / real g\<rfloor> = cols div g"
    by (simp_all add: floor_divide_of_nat_eq)
  show ?thesis
    using assms(1)
    by (auto simp: get_data_mosaic_def get_pixel_array_def reshape_def
        scale_data_def assms(2-6) assms(7) [symmetric] fl Let_def
        split: if_splits option.splits sum.splits)
qed

text \<open>
  Without rescaling, the array the mosaic \<open>get_data\<close> returns has the tile index as its
  first axis, and its entry \<open>(i, r, k)\<close> is the pixel \<open>(r, k)\<close> of tile \<open>i\<close>, the tiles
  counted along the rows of the grid.
\<close>

lemma mosaic_get_data_tile_axis_first:
  assumes "get_data mul add (MosaicWrapper d c n) = Inr a"
    and "RescaleSlope d = None" and "RescaleIntercept d = None"
    and "Rows d = Some rows" and "Columns d = Some cols"
    and "pixel_array d = Some data"
    and "g = mosaic_size (MosaicWrapper d c n)"
  shows "shape a = [min n (g * g), rows div g, cols div g]"
  using mosaic_get_data_unfold [OF assms] by (simp add: take_first_def)

lemma mosaic_get_data_tiles:
  assumes "get_data mul add (MosaicWrapper d c n) = Inr a"
    and "RescaleSlope d = None" and "RescaleIntercept d = None"
    and "Rows d = Some rows" and "Columns d = Some cols"
    and "pixel_array d = Some data"
    and "g = mosaic_size (MosaicWrapper d c n)"
    and "nr = rows div g" and "nc = cols div g"
    and "i < n" and "i < g * g" and "r < nr" and "k < nc"
  shows "items a ! ((i * nr + r) * nc + k)
         = items data ! ((((i div g) * nr + r) * g + i mod g) * nc + k)"
proof -
  let ?v4 = "\<lparr>shape = [g, nr, g, nc], items = items data\<rparr>"
  have a: "a = take_first n \<lparr>shape = [g * g, nr, nc], items = items (rollaxis_2_1 ?v4)\<rparr>"
    using mosaic_get_data_unfold [OF assms(1-7)] by (simp add: assms(8,9))
  have gpos: "0 < g" using assms(11) by (cases g) simp_all
  have i0: "i div g < g" using assms(11) gpos by (simp add: less_mult_imp_div_less)
  have i2: "i mod g < g" using gpos by simp
  have imin: "i < min n (g * g)" using assms(10,11) by simp
  have rk: "r * nc + k < nr * nc" using assms(12,13) by (rule block_index_less)
  have "i * (nr * nc) + (r * nc + k) < min n (g * g) * (nr * nc)"
    using imin rk by (rule block_index_less)
  then have lt: "(i * nr + r) * nc + k < min n (g * g) * (nr * nc)"
    by (simp add: algebra_simps)
  have "items a ! ((i * nr + r) * nc + k) = items (rollaxis_2_1 ?v4) ! ((i * nr + r) * nc + k)"
    using lt by (simp add: a take_first_def)
  also have "(i * nr + r) * nc + k = (((i div g) * g + i mod g) * nr + r) * nc + k"
    by simp
  also have "items (rollaxis_2_1 ?v4) ! ((((i div g) * g + i mod g) * nr + r) * nc + k)
             = items ?v4 ! ((((i div g) * nr + r) * g + i mod g) * nc + k)"
    using i0 i2 assms(12,13) by (intro rollaxis_2_1_nth) simp_all
  finally show ?thesis by simp
qed

text \<open>
  Claim C9 gives the result of the mosaic \<open>get_data\<close> the shape (tile rows, tile columns,
  tile count), which is also what \<open>image_shape\<close> of the same class says. The source puts
  the tile index first: on the example the three tiles come out in order, the padding
  tile is dropped, and the shape is \<open>[3, 2, 2]\<close> where \<open>image_shape\<close> is \<open>(2, 2, 3)\<close>.
\<close>

theorem mosaic_get_data_shape:
  "image_shape (MosaicWrapper tiled_dcm empty_csa 3) = Inr (Some (Shape3 2 2 3))
   \<and> get_data arr_mul arr_add (MosaicWrapper tiled_dcm empty_csa 3) =
       Inr \<lparr>shape = [3, 2, 2], items = [0, 0, 0, 0, 1, 1, 1, 1, 2, 2, 2, 2]\<rparr>"
  by (simp add: get_data_mosaic_def get_pixel_array_def reshape_def rollaxis_2_1_def
      take_first_def scale_data_def mosaic_size_def ceil_sqrt_3 tiled_dcm_def empty_dcm_def
      upt_2 Let_def)

end
